theory Spec2Isabelle
  imports Complex_Main "HOL-Library.Sublist"
begin

section \<open>Data model\<close>

text \<open>
  The two dataclasses of \<^verbatim>\<open>simple_veo3_builder.py\<close>, field for field. A Python
  \<^verbatim>\<open>str\<close> is a \<^typ>\<open>string\<close>; one \<^typ>\<open>char\<close> stands for one code point below 256,
  which covers every string literal of the functions modelled below. A \<^verbatim>\<open>float\<close> field
  is a \<^typ>\<open>real\<close> (a finite float): these functions only store such numbers and compare
  \<^verbatim>\<open>camera_fov\<close> with integer constants.
\<close>

record PromptComponents =
  subject :: string
  action :: string
  scene :: string
  style :: string
  camera :: string
  composition :: string
  ambiance :: string
  audio :: string

record SceneConfig =
  camera_fov :: real
  camera_height :: real
  camera_distance :: real
  camera_angle :: string
  shot_type :: string
  lighting_intensity :: real
  lighting_type :: string
  time_of_day :: string
  weather :: string

text \<open>
  The dictionary \<^verbatim>\<open>self.current_prompt\<close> of the command-line builder. That class reads
  and writes the five keys below and no other, so the dictionary is a record.
\<close>

record PromptDocument =
  prompt :: string
  caption :: string
  file_name :: string
  input_image_urls :: "string list"
  input_ids :: "string list"

text \<open>
  The attributes of a \<^verbatim>\<open>Veo3PromptBuilder\<close> object: \<^verbatim>\<open>self.components\<close>,
  \<^verbatim>\<open>self.scene\<close> and \<^verbatim>\<open>self.current_prompt\<close>.
\<close>

record Veo3PromptBuilder =
  self_components :: PromptComponents
  self_scene :: SceneConfig
  self_current_prompt :: PromptDocument

definition default_components :: PromptComponents where
  "default_components =
     \<lparr>subject = '''', action = '''', scene = '''', style = ''cinematic, photorealistic'',
      camera = '''', composition = '''', ambiance = '''', audio = ''''\<rparr>"

definition default_scene :: SceneConfig where
  "default_scene =
     \<lparr>camera_fov = 50, camera_height = 5, camera_distance = 10,
      camera_angle = ''eye-level'', shot_type = ''medium'', lighting_intensity = 1,
      lighting_type = ''natural'', time_of_day = ''day'', weather = ''clear''\<rparr>"

definition initial_prompt :: PromptDocument where
  "initial_prompt =
     \<lparr>prompt = '''', caption = '''', file_name = ''video.mp4'',
      input_image_urls = [], input_ids = []\<rparr>"

text \<open>\<^verbatim>\<open>Veo3PromptBuilder.__init__\<close>\<close>

definition init :: Veo3PromptBuilder where
  "init =
     \<lparr>self_components = default_components, self_scene = default_scene,
      self_current_prompt = initial_prompt\<rparr>"

section \<open>String operations of the Python library\<close>

text \<open>
  \<^verbatim>\<open>str.isspace\<close> for one code point below 256: the characters at which
  \<^verbatim>\<open>str.split()\<close> and \<^verbatim>\<open>str.strip()\<close> cut.
\<close>

definition is_space :: "char \<Rightarrow> bool" where
  "is_space c =
     (let n = (of_char c :: nat)
      in (9 \<le> n \<and> n \<le> 13) \<or> (28 \<le> n \<and> n \<le> 32) \<or> n = 133 \<or> n = 160)"

text \<open>
  \<^verbatim>\<open>s.split()\<close>: the maximal runs of characters that are not white space, in order.
  \<open>split_aux cur s\<close> carries the run read so far.
\<close>

fun split_aux :: "string \<Rightarrow> string \<Rightarrow> string list" where
  "split_aux cur [] = (if cur = [] then [] else [cur])"
| "split_aux cur (c # cs) =
     (if is_space c then (if cur = [] then split_aux [] cs else cur # split_aux [] cs)
      else split_aux (cur @ [c]) cs)"

definition split :: "string \<Rightarrow> string list" where
  "split s = split_aux [] s"

text \<open>\<^verbatim>\<open>sep.join(xs)\<close>\<close>

fun join :: "string \<Rightarrow> string list \<Rightarrow> string" where
  "join sep [] = []"
| "join sep [x] = x"
| "join sep (x # y # ys) = x @ sep @ join sep (y # ys)"

text \<open>
  \<^verbatim>\<open>s.replace(old, new)\<close>: every occurrence of \<open>old\<close>, found from the left and
  without overlap, becomes \<open>new\<close>; an empty \<open>old\<close> matches before every character
  and at the end.
\<close>

function replace :: "string \<Rightarrow> string \<Rightarrow> string \<Rightarrow> string" where
  "replace [] old new = (if old = [] then new else [])"
| "replace (c # cs) old new =
     (if old = [] then new @ c # replace cs old new
      else if prefix old (c # cs) then new @ replace (drop (length old) (c # cs)) old new
      else c # replace cs old new)"
  by pat_completeness auto
termination
  by (relation "measure (\<lambda>(s, old, new). length s)") auto

section \<open>The prompt assembler\<close>

text \<open>
  The list \<^verbatim>\<open>components\<close> that \<^verbatim>\<open>build_final_prompt\<close> starts from, before the empty
  entries are filtered out: eight entries in the order of the source. A Python string
  is true in a condition exactly when it is not empty.
\<close>

definition prompt_segments :: "Veo3PromptBuilder \<Rightarrow> string list" where
  "prompt_segments self =
     [if subject (self_components self) \<noteq> [] then ''Subject: '' @ subject (self_components self) else '''',
      if action (self_components self) \<noteq> [] then ''Action: '' @ action (self_components self) else '''',
      if scene (self_components self) \<noteq> [] then ''Scene: '' @ scene (self_components self) else '''',
      if camera (self_components self) \<noteq> [] then ''Camera: '' @ camera (self_components self) else '''',
      if shot_type (self_scene self) \<noteq> []
      then ''Composition: '' @ shot_type (self_scene self) @ '' shot, '' @ camera_angle (self_scene self)
      else '''',
      if ambiance (self_components self) \<noteq> [] then ''Ambiance: '' @ ambiance (self_components self) else '''',
      if audio (self_components self) \<noteq> [] then ''Audio: '' @ audio (self_components self) else '''',
      if style (self_components self) \<noteq> [] then ''Style: '' @ style (self_components self) else '''']"

text \<open>
  \<^verbatim>\<open>build_final_prompt\<close>: the method updates \<^verbatim>\<open>self.current_prompt\<close> in place; the model
  returns the builder with the updated document. The key \<^verbatim>\<open>caption\<close> is assigned only
  under the condition of the source, and the two list-valued keys are never assigned.
\<close>

definition build_final_prompt :: "Veo3PromptBuilder \<Rightarrow> Veo3PromptBuilder" where
  "build_final_prompt self =
     (let components = filter (\<lambda>c. c \<noteq> []) (prompt_segments self);
          p1 = (self_current_prompt self)\<lparr>prompt := join ''. '' components\<rparr>;
          p2 = (if subject (self_components self) \<noteq> [] \<and> action (self_components self) \<noteq> []
                then let words = take 8 (split (subject (self_components self) @ '' '' @
                                                  action (self_components self)))
                     in p1\<lparr>caption := join '' '' words\<rparr>
                else p1);
          scene_type = replace (replace (shot_type (self_scene self)) ''-'' '''') '' '' '''';
          time_suffix = time_of_day (self_scene self)
      in self\<lparr>self_current_prompt := p2\<lparr>file_name := scene_type @ ''-'' @ time_suffix @ ''.mp4''\<rparr>\<rparr>)"

section \<open>Lens guide\<close>

text \<open>
  \<^verbatim>\<open>display_lens_guide(fov)\<close> prints a lens name and its effect; the model returns the
  pair \<open>(lens_type, effect)\<close> that is printed.
\<close>

definition display_lens_guide :: "real \<Rightarrow> string \<times> string" where
  "display_lens_guide fov =
     (if fov < 25 then (''Super Telephoto (200mm+)'', ''Strong compression, isolated subjects'')
      else if fov < 35 then (''Telephoto (85-135mm)'', ''Portrait lens, natural compression'')
      else if fov < 55 then (''Standard (35-50mm)'', ''Natural perspective, human-like vision'')
      else if fov < 75 then (''Wide Angle (24-35mm)'', ''Expanded view, some distortion'')
      else (''Ultra Wide (14-24mm)'', ''Dramatic perspective, high distortion''))"

text \<open>
  The lens analysis at the head of \<^verbatim>\<open>analyze_scene_setup\<close> in \<^verbatim>\<open>demo_veo3_builder.py\<close>,
  as a function of \<^verbatim>\<open>scene.camera_fov\<close>.
\<close>

definition analyze_scene_setup_lens :: "real \<Rightarrow> string \<times> string" where
  "analyze_scene_setup_lens fov =
     (if fov < 25 then (''Super Telephoto (200mm+)'', ''Strong compression, isolated subjects'')
      else if fov < 35 then (''Telephoto (85-135mm)'', ''Portrait lens, natural compression'')
      else if fov < 55 then (''Standard (35-50mm)'', ''Natural perspective, human-like vision'')
      else if fov < 75 then (''Wide Angle (24-35mm)'', ''Expanded view, some distortion'')
      else (''Ultra Wide (14-24mm)'', ''Dramatic perspective, high distortion''))"

section \<open>The suggestion engine\<close>

text \<open>
  A dictionary literal is the list of its items (the keys of both literals below are
  distinct), and \<^verbatim>\<open>d.get(key, default)\<close> looks the key up.
\<close>

definition dict_get :: "('k \<times> 'v) list \<Rightarrow> 'k \<Rightarrow> 'v \<Rightarrow> 'v" where
  "dict_get d key dflt = (case map_of d key of None \<Rightarrow> dflt | Some v \<Rightarrow> v)"

definition camera_suggestions :: "(string \<times> string) list" where
  "camera_suggestions =
     [(''wide'', ''Static wide shot establishing the environment''),
      (''medium'', ''Slow dolly forward for character focus''),
      (''close-up'', ''Handheld close-up for intimacy''),
      (''extreme close-up'', ''Macro lens extreme close-up revealing details'')]"

definition ambiance_map :: "((string \<times> string) \<times> string) list" where
  "ambiance_map =
     [((''natural'', ''day''), ''Bright natural sunlight with soft shadows''),
      ((''natural'', ''dawn''), ''Golden hour lighting with warm orange tones''),
      ((''natural'', ''dusk''), ''Blue hour with deep purple and orange sky''),
      ((''natural'', ''night''), ''Moonlight with cool blue tones and deep shadows''),
      ((''dramatic'', ''day''), ''High contrast lighting with sharp shadows''),
      ((''dramatic'', ''night''), ''Chiaroscuro lighting with stark black and white contrast''),
      ((''soft'', ''day''), ''Diffused overcast light with gentle shadows''),
      ((''backlit'', ''day''), ''Strong backlighting creating silhouettes and rim light'')]"

text \<open>The two values named \<^verbatim>\<open>suggestion\<close> in \<^verbatim>\<open>suggest_from_scene\<close>.\<close>

definition camera_suggestion :: "SceneConfig \<Rightarrow> string" where
  "camera_suggestion sc = dict_get camera_suggestions (shot_type sc) ''Static shot''"

definition ambiance_suggestion :: "SceneConfig \<Rightarrow> string" where
  "ambiance_suggestion sc =
     dict_get ambiance_map (lighting_type sc, time_of_day sc)
       (lighting_type sc @ '' '' @ time_of_day sc @ '' lighting'')"

text \<open>\<^verbatim>\<open>str.lower\<close>, code point by code point, below 256.\<close>

definition lower_char :: "char \<Rightarrow> char" where
  "lower_char c =
     (let n = (of_char c :: nat)
      in if (65 \<le> n \<and> n \<le> 90) \<or> (192 \<le> n \<and> n \<le> 222 \<and> n \<noteq> 215) then char_of (n + 32) else c)"

definition lower :: "string \<Rightarrow> string" where
  "lower s = map lower_char s"

datatype error = EOFError

text \<open>
  \<^verbatim>\<open>suggest_from_scene\<close> asks on the terminal before it writes a suggestion. The lines
  that \<^verbatim>\<open>input()\<close> will return are a list; a call on the empty list raises
  \<^verbatim>\<open>EOFError\<close>. The method mutates \<^verbatim>\<open>self.components\<close> in place, so the result is the
  builder as the call leaves it, together with either the exception raised or the
  lines not yet read. What the method prints is not modelled.
\<close>

definition suggest_camera :: "Veo3PromptBuilder \<Rightarrow> string list \<Rightarrow> Veo3PromptBuilder \<times> (error + string list)" where
  "suggest_camera self stdin =
     (if camera (self_components self) = [] then
        let suggestion = camera_suggestion (self_scene self)
        in (case stdin of
              [] \<Rightarrow> (self, Inl EOFError)
            | answer # rest \<Rightarrow>
                (if lower answer = ''y''
                 then self\<lparr>self_components := (self_components self)\<lparr>camera := suggestion\<rparr>\<rparr>
                 else self, Inr rest))
      else (self, Inr stdin))"

definition suggest_ambiance :: "Veo3PromptBuilder \<Rightarrow> string list \<Rightarrow> Veo3PromptBuilder \<times> (error + string list)" where
  "suggest_ambiance self stdin =
     (if ambiance (self_components self) = [] then
        let suggestion = ambiance_suggestion (self_scene self)
        in (case stdin of
              [] \<Rightarrow> (self, Inl EOFError)
            | answer # rest \<Rightarrow>
                (if lower answer = ''y''
                 then self\<lparr>self_components := (self_components self)\<lparr>ambiance := suggestion\<rparr>\<rparr>
                 else self, Inr rest))
      else (self, Inr stdin))"

definition suggest_from_scene :: "Veo3PromptBuilder \<Rightarrow> string list \<Rightarrow> Veo3PromptBuilder \<times> (error + string list)" where
  "suggest_from_scene self stdin =
     (case suggest_camera self stdin of
        (self1, Inl e) \<Rightarrow> (self1, Inl e)
      | (self1, Inr stdin1) \<Rightarrow> suggest_ambiance self1 stdin1)"

section \<open>Merging an assistant reply\<close>

text \<open>
  The graphical builder of \<^verbatim>\<open>veo3_prompt_builder.py\<close> keeps its document in the
  dictionary \<^verbatim>\<open>st.session_state.current_prompt\<close>, and \<^verbatim>\<open>run\<close> merges into it whatever
  JSON object the assistant's reply carries between a \<^verbatim>\<open>```json\<close> fence and the next
  \<^verbatim>\<open>```\<close>. Here the dictionary is open (the merge may add keys), so it is a map from
  keys to the values \<^verbatim>\<open>json.loads\<close> builds. \<open>JDict\<close> lists the items of an object in
  the order of the text; \<open>JFloat\<close> is a finite float.
\<close>

datatype json =
  JNull | JBool bool | JInt int | JFloat real | JStr string
  | JList "json list" | JDict "(string \<times> json) list"

type_synonym document = "string \<rightharpoonup> json"

definition initial_session_prompt :: document where
  "initial_session_prompt =
     [''prompt'' \<mapsto> JStr '''', ''caption'' \<mapsto> JStr '''', ''file_name'' \<mapsto> JStr ''video.mp4'',
      ''input_image_urls'' \<mapsto> JList [], ''input_ids'' \<mapsto> JList []]"

text \<open>
  \<^verbatim>\<open>s.find(sub, start)\<close>: the lowest index at or after \<open>start\<close> where \<open>sub\<close> occurs,
  or \<open>-1\<close>. \<open>find_at s sub i\<close> searches \<open>s\<close>, whose first character has index \<open>i\<close>.
\<close>

fun find_at :: "string \<Rightarrow> string \<Rightarrow> nat \<Rightarrow> int" where
  "find_at [] sub i = (if sub = [] then int i else - 1)"
| "find_at (c # cs) sub i = (if prefix sub (c # cs) then int i else find_at cs sub (Suc i))"

definition find_str :: "string \<Rightarrow> string \<Rightarrow> int \<Rightarrow> int" where
  "find_str s sub start =
     (let n = int (length s);
          i = (if start < 0 then max 0 (start + n) else start)
      in if i > n then - 1 else find_at (drop (nat i) s) sub (nat i))"

text \<open>\<^verbatim>\<open>sub in s\<close>\<close>

definition contains :: "string \<Rightarrow> string \<Rightarrow> bool" where
  "contains sub s = (find_str s sub 0 \<noteq> - 1)"

text \<open>\<^verbatim>\<open>s[a:b]\<close>, with Python's treatment of negative and too large bounds.\<close>

definition slice :: "string \<Rightarrow> int \<Rightarrow> int \<Rightarrow> string" where
  "slice s a b =
     (let n = int (length s);
          lo = (if a < 0 then max 0 (a + n) else min a n);
          hi = (if b < 0 then max 0 (b + n) else min b n)
      in take (nat (hi - lo)) (drop (nat lo) s))"

text \<open>\<^verbatim>\<open>s.strip()\<close>\<close>

definition strip :: "string \<Rightarrow> string" where
  "strip s = rev (dropWhile is_space (rev (dropWhile is_space s)))"

text \<open>
  Lines 392 to 397 of \<^verbatim>\<open>run\<close>: the text handed to \<^verbatim>\<open>json.loads\<close>, when the reply has a
  fence and the closing fence lies after the end of the opening one.
\<close>

definition extract_json :: "string \<Rightarrow> string option" where
  "extract_json response =
     (if contains ''```json'' response then
        let json_start = find_str response ''```json'' 0 + 7;
            json_end = find_str response ''```'' json_start
        in if json_end > json_start then Some (strip (slice response json_start json_end))
           else None
      else None)"

text \<open>\<^verbatim>\<open>d.update(other)\<close> for a dictionary \<open>other\<close>: its items are assigned in order.\<close>

definition dict_update :: "document \<Rightarrow> (string \<times> json) list \<Rightarrow> document" where
  "dict_update d items = foldl (\<lambda>m (k, v). m(k \<mapsto> v)) d items"

text \<open>
  What the merge leaves behind: the document, or the fact that \<^verbatim>\<open>dict.update\<close> was called
  with a JSON value that is not an object (a list, a string, a number, a constant).
  What the interpreter does with such an argument is outside this model.
\<close>

datatype merge_result = Document document | UpdateWithNonDict json

text \<open>
  Lines 391 to 402 of \<^verbatim>\<open>run\<close>. \<open>loads\<close> stands for \<^verbatim>\<open>json.loads\<close>, which is not code
  of this program: it returns \<open>None\<close> where \<^verbatim>\<open>json.loads\<close> raises
  \<^verbatim>\<open>JSONDecodeError\<close>, the exception that the source catches and drops.
\<close>

definition merge_reply :: "(string \<Rightarrow> json option) \<Rightarrow> string \<Rightarrow> document \<Rightarrow> merge_result" where
  "merge_reply loads response current_prompt =
     (case extract_json response of
        None \<Rightarrow> Document current_prompt
      | Some json_str \<Rightarrow>
          (case loads json_str of
             None \<Rightarrow> Document current_prompt
           | Some (JDict new_prompt) \<Rightarrow> Document (dict_update current_prompt new_prompt)
           | Some other \<Rightarrow> UpdateWithNonDict other))"

section \<open>Facts about the library operations\<close>

text \<open>Replacing one character by nothing removes every occurrence of it.\<close>

lemma replace_char_empty: "replace s [c] [] = filter (\<lambda>x. x \<noteq> c) s"
  by (induction s) auto

lemma shot_type_normalised:
  "replace (replace s ''-'' '''') '' '' '''' = filter (\<lambda>x. x \<noteq> CHR '' '' \<and> x \<noteq> CHR ''-'') s"
  by (simp add: replace_char_empty conj_commute)

text \<open>Every entry of a joined list occurs in the result as a contiguous piece.\<close>

lemma sublist_join: "x \<in> set xs \<Longrightarrow> sublist x (join sep xs)"
proof (induction sep xs rule: join.induct)
  case (1 sep)
  then show ?case by simp
next
  case (2 sep y)
  then show ?case by simp
next
  case (3 sep y z zs)
  show ?case
  proof (cases "x = y")
    case True
    then show ?thesis by simp
  next
    case False
    with 3 have "sublist x (join sep (z # zs))" by simp
    then obtain ps ss where "join sep (z # zs) = ps @ x @ ss"
      unfolding sublist_def by blast
    then have "join sep (y # z # zs) = (y @ sep @ ps) @ x @ ss" by simp
    then show ?thesis unfolding sublist_def by blast
  qed
qed



lemma concat_split_aux: "concat (split_aux cur s) = cur @ filter (\<lambda>c. \<not> is_space c) s"
  by (induction s arbitrary: cur) auto

lemma concat_split: "concat (split s) = filter (\<lambda>c. \<not> is_space c) s"
  by (simp add: split_def concat_split_aux)

lemma lower_yes: "lower ''y'' = ''y''" "lower ''Y'' = ''y''" "lower ''n'' \<noteq> ''y''"
  by code_simp+

text \<open>
  A dictionary after \<open>update\<close>: a key holds the value of the last item that names it,
  and its old value when no item does.
\<close>

lemma dict_update_apply:
  "dict_update d items k = (case map_of (rev items) k of None \<Rightarrow> d k | Some v \<Rightarrow> Some v)"
proof (induction items arbitrary: d)
  case Nil
  then show ?case by (simp add: dict_update_def)
next
  case (Cons kv items)
  obtain k' v' where kv: "kv = (k', v')" by (cases kv)
  have "dict_update d (kv # items) k = dict_update (d(k' \<mapsto> v')) items k"
    by (simp add: dict_update_def kv)
  also have "\<dots> = (case map_of (rev items) k of None \<Rightarrow> (d(k' \<mapsto> v')) k | Some v \<Rightarrow> Some v)"
    by (rule Cons.IH)
  also have "\<dots> = (case map_of (rev (kv # items)) k of None \<Rightarrow> d k | Some v \<Rightarrow> Some v)"
    by (simp add: kv map_add_def split: option.splits)
  finally show ?case .
qed

lemma dict_update_other: "k \<notin> fst ` set items \<Longrightarrow> dict_update d items k = d k"
proof -
  assume "k \<notin> fst ` set items"
  then have "map_of (rev items) k = None"
    by (simp add: map_of_eq_None_iff)
  then show ?thesis by (simp add: dict_update_apply)
qed

lemma dict_update_item:
  "distinct (map fst items) \<Longrightarrow> (k, v) \<in> set items \<Longrightarrow> dict_update d items k = Some v"
proof -
  assume d: "distinct (map fst items)" and m: "(k, v) \<in> set items"
  from d have "distinct (map fst (rev items))"
    by (simp add: rev_map [symmetric])
  with m have "map_of (rev items) k = Some v"
    by simp
  then show ?thesis by (simp add: dict_update_apply)
qed

section \<open>What \<open>build_final_prompt\<close> writes\<close>

text \<open>One equation for each key of the document, and the attributes left alone.\<close>

lemma prompt_build:
  "prompt (self_current_prompt (build_final_prompt self)) =
     join ''. '' (filter (\<lambda>c. c \<noteq> []) (prompt_segments self))"
  by (simp add: build_final_prompt_def Let_def)

lemma caption_build:
  "caption (self_current_prompt (build_final_prompt self)) =
     (if subject (self_components self) \<noteq> [] \<and> action (self_components self) \<noteq> []
      then join '' '' (take 8 (split (subject (self_components self) @ '' '' @ action (self_components self))))
      else caption (self_current_prompt self))"
  by (simp add: build_final_prompt_def Let_def)

lemma file_name_build:
  "file_name (self_current_prompt (build_final_prompt self)) =
     replace (replace (shot_type (self_scene self)) ''-'' '''') '' '' '''' @ ''-'' @
     time_of_day (self_scene self) @ ''.mp4''"
  by (simp add: build_final_prompt_def Let_def)

lemma urls_build:
  "input_image_urls (self_current_prompt (build_final_prompt self)) = input_image_urls (self_current_prompt self)"
  "input_ids (self_current_prompt (build_final_prompt self)) = input_ids (self_current_prompt self)"
  by (simp_all add: build_final_prompt_def Let_def)

lemma frame_build:
  "self_components (build_final_prompt self) = self_components self"
  "self_scene (build_final_prompt self) = self_scene self"
  by (simp_all add: build_final_prompt_def Let_def)

lemma prompt_segments_composition:
  "prompt_segments (self\<lparr>self_components := c\<lparr>composition := x\<rparr>\<rparr>) =
   prompt_segments (self\<lparr>self_components := c\<rparr>)"
  by (simp add: prompt_segments_def)

lemma prompt_segments_cong:
  "self_components a = self_components b \<Longrightarrow> self_scene a = self_scene b \<Longrightarrow>
   prompt_segments a = prompt_segments b"
  by (simp add: prompt_segments_def)

lemma build_idem: "build_final_prompt (build_final_prompt self) = build_final_prompt self"
proof -
  have s: "prompt_segments (build_final_prompt self) = prompt_segments self"
    by (rule prompt_segments_cong) (simp_all add: frame_build)
  show ?thesis
    unfolding build_final_prompt_def [of "build_final_prompt self"] s frame_build
    by (simp add: build_final_prompt_def Let_def)
qed

section \<open>The Composition segment\<close>

text \<open>
  Claim C1, as the program has it. The fifth entry of the segment list is the string
  \<^verbatim>\<open>Composition: <shot_type> shot, <camera_angle>\<close> built from the scene exactly when
  \<^verbatim>\<open>scene.shot_type\<close> is not empty, and then it is a piece of the assembled prompt;
  when \<^verbatim>\<open>scene.shot_type\<close> is empty the entry is empty and no emitted segment carries
  the label. The value of \<^verbatim>\<open>components.composition\<close> plays no part: replacing it by any
  \<open>x\<close> leaves the segment list as it was.
\<close>

theorem composition_segment_from_scene:
  "(shot_type (self_scene self) \<noteq> [] \<longrightarrow>
      prompt_segments self ! 4 =
        ''Composition: '' @ shot_type (self_scene self) @ '' shot, '' @ camera_angle (self_scene self) \<and>
      sublist (''Composition: '' @ shot_type (self_scene self) @ '' shot, '' @ camera_angle (self_scene self))
        (prompt (self_current_prompt (build_final_prompt self)))) \<and>
   (shot_type (self_scene self) = [] \<longrightarrow>
      prompt_segments self ! 4 = [] \<and>
      (\<forall>seg \<in> set (filter (\<lambda>c. c \<noteq> []) (prompt_segments self)). \<not> prefix ''Composition: '' seg)) \<and>
   prompt_segments (self\<lparr>self_components := (self_components self)\<lparr>composition := x\<rparr>\<rparr>) =
     prompt_segments self \<and>
   prompt (self_current_prompt (build_final_prompt self)) =
     join ''. '' (filter (\<lambda>c. c \<noteq> []) (prompt_segments self))"
proof -
  have a: "prompt_segments self ! 4 =
        ''Composition: '' @ shot_type (self_scene self) @ '' shot, '' @ camera_angle (self_scene self)"
    if "shot_type (self_scene self) \<noteq> []"
    using that by (simp add: prompt_segments_def)
  have b: "sublist (''Composition: '' @ shot_type (self_scene self) @ '' shot, '' @ camera_angle (self_scene self))
        (prompt (self_current_prompt (build_final_prompt self)))"
    if "shot_type (self_scene self) \<noteq> []"
    unfolding prompt_build
    by (rule sublist_join) (use that in \<open>simp add: prompt_segments_def\<close>)
  have c: "prompt_segments self ! 4 = []" if "shot_type (self_scene self) = []"
    using that by (simp add: prompt_segments_def)
  have d: "\<forall>seg \<in> set (filter (\<lambda>c. c \<noteq> []) (prompt_segments self)). \<not> prefix ''Composition: '' seg"
    if "shot_type (self_scene self) = []"
    using that by (simp add: prompt_segments_def)
  have e: "prompt_segments (self\<lparr>self_components := (self_components self)\<lparr>composition := x\<rparr>\<rparr>) =
     prompt_segments self"
    by (simp add: prompt_segments_def)
  show ?thesis
    apply (intro conjI impI)
         apply (erule a)
        apply (erule b)
       apply (erule c)
      apply (erule d)
     apply (rule e)
    apply (rule prompt_build)
    done
qed

theorem composition_segment_from_scene_witness:
  "prompt_segments (init\<lparr>self_components := default_components\<lparr>composition := ''Rule of thirds''\<rparr>\<rparr>) ! 4
     = ''Composition: medium shot, eye-level'' \<and>
   sublist ''Composition: medium shot, eye-level''
     (prompt (self_current_prompt (build_final_prompt
        (init\<lparr>self_components := default_components\<lparr>composition := ''Rule of thirds''\<rparr>\<rparr>)))) \<and>
   prompt_segments (init\<lparr>self_scene := default_scene\<lparr>shot_type := []\<rparr>\<rparr>) ! 4 = []"
proof -
  let ?a = "init\<lparr>self_components := default_components\<lparr>composition := ''Rule of thirds''\<rparr>\<rparr>"
  let ?b = "init\<lparr>self_scene := default_scene\<lparr>shot_type := []\<rparr>\<rparr>"
  have m: "shot_type (self_scene ?a) = ''medium''" "camera_angle (self_scene ?a) = ''eye-level''"
    by (simp_all add: init_def default_scene_def)
  have ne: "shot_type (self_scene ?a) \<noteq> []"
    by (simp add: init_def default_scene_def)
  have e: "shot_type (self_scene ?b) = []"
    by simp
  have l: "''Composition: '' @ shot_type (self_scene ?a) @ '' shot, '' @ camera_angle (self_scene ?a)
      = ''Composition: medium shot, eye-level''"
    by (simp add: init_def default_scene_def)
  from composition_segment_from_scene [where self = ?a, THEN conjunct1, THEN mp, OF ne]
  have 1: "prompt_segments ?a ! 4 = ''Composition: medium shot, eye-level'' \<and>
      sublist ''Composition: medium shot, eye-level'' (prompt (self_current_prompt (build_final_prompt ?a)))"
    unfolding l .
  from composition_segment_from_scene [where self = ?b, THEN conjunct2, THEN conjunct1, THEN mp, OF e]
  have 2: "prompt_segments ?b ! 4 = []"
    by (rule conjunct1)
  from 1 2 show ?thesis by (intro conjI) (erule conjunct1, erule conjunct2, assumption)
qed

text \<open>
  The claim as first stated promised \<^verbatim>\<open>Composition: <value>\<close> for a non-empty
  \<^verbatim>\<open>components.composition\<close>. With the composition \<^verbatim>\<open>Rule of thirds\<close> and the default
  scene, the segment is the one built from the scene, and the prompt holds nothing of
  the caller's value.
\<close>

theorem composition_counterexample:
  "composition (self_components (init\<lparr>self_components := default_components\<lparr>composition := ''Rule of thirds''\<rparr>\<rparr>)) \<noteq> [] \<and>
   prompt_segments (init\<lparr>self_components := default_components\<lparr>composition := ''Rule of thirds''\<rparr>\<rparr>) ! 4
     = ''Composition: medium shot, eye-level'' \<and>
   prompt_segments (init\<lparr>self_components := default_components\<lparr>composition := ''Rule of thirds''\<rparr>\<rparr>) ! 4
     \<noteq> ''Composition: Rule of thirds'' \<and>
   prompt (self_current_prompt (build_final_prompt
     (init\<lparr>self_components := default_components\<lparr>composition := ''Rule of thirds''\<rparr>\<rparr>)))
     = ''Composition: medium shot, eye-level. Style: cinematic, photorealistic''"
  by (simp add: prompt_build prompt_segments_def init_def default_components_def default_scene_def)

section \<open>Independence from \<open>components.composition\<close>\<close>

text \<open>
  Claim C10. For every builder state and every two values \<open>x\<close> and \<open>y\<close> of
  \<^verbatim>\<open>components.composition\<close>, all else equal, \<^verbatim>\<open>build_final_prompt\<close> leaves the same
  document: prompt, caption, file name and the two lists.
\<close>

theorem build_ignores_composition:
  "self_current_prompt (build_final_prompt (self\<lparr>self_components := c\<lparr>composition := x\<rparr>\<rparr>)) =
   self_current_prompt (build_final_prompt (self\<lparr>self_components := c\<lparr>composition := y\<rparr>\<rparr>))"
  by (simp add: build_final_prompt_def Let_def prompt_segments_composition)

theorem build_ignores_composition_witness:
  "self_current_prompt (build_final_prompt
     (init\<lparr>self_components := default_components\<lparr>composition := ''Rule of thirds''\<rparr>\<rparr>)) =
   \<lparr>prompt = ''Composition: medium shot, eye-level. Style: cinematic, photorealistic'',
    caption = '''', file_name = ''medium-day.mp4'', input_image_urls = [], input_ids = []\<rparr> \<and>
   self_current_prompt (build_final_prompt
     (init\<lparr>self_components := default_components\<lparr>composition := ''''\<rparr>\<rparr>)) =
   \<lparr>prompt = ''Composition: medium shot, eye-level. Style: cinematic, photorealistic'',
    caption = '''', file_name = ''medium-day.mp4'', input_image_urls = [], input_ids = []\<rparr>"
  using build_ignores_composition [where self = init and c = default_components and x = "''Rule of thirds''" and y = "[]"]
  by (simp add: build_final_prompt_def Let_def prompt_segments_def init_def default_components_def
      default_scene_def initial_prompt_def)

section \<open>What the document depends on\<close>

text \<open>
  Claim C2, as the program has it. For two builders with equal components and equal
  scene, whatever their documents held before: the prompts agree and the file names
  agree; the captions agree when subject and action are both non-empty; the whole
  documents agree when both builders start from the document of \<^verbatim>\<open>__init__\<close>; and a second
  call of \<^verbatim>\<open>build_final_prompt\<close> on unchanged inputs changes nothing.
\<close>

theorem build_document_dependence:
  "self_components a = self_components b \<and> self_scene a = self_scene b \<longrightarrow>
     prompt (self_current_prompt (build_final_prompt a)) = prompt (self_current_prompt (build_final_prompt b)) \<and>
     file_name (self_current_prompt (build_final_prompt a)) = file_name (self_current_prompt (build_final_prompt b)) \<and>
     (subject (self_components a) \<noteq> [] \<and> action (self_components a) \<noteq> [] \<longrightarrow>
        caption (self_current_prompt (build_final_prompt a)) = caption (self_current_prompt (build_final_prompt b))) \<and>
     (self_current_prompt a = initial_prompt \<and> self_current_prompt b = initial_prompt \<longrightarrow>
        self_current_prompt (build_final_prompt a) = self_current_prompt (build_final_prompt b)) \<and>
     build_final_prompt (build_final_prompt a) = build_final_prompt a"
proof (intro impI, elim conjE)
  assume c: "self_components a = self_components b" and s: "self_scene a = self_scene b"
  have seg: "prompt_segments a = prompt_segments b"
    using c s by (rule prompt_segments_cong)
  have p: "prompt (self_current_prompt (build_final_prompt a)) = prompt (self_current_prompt (build_final_prompt b))"
    by (simp only: prompt_build seg)
  have f: "file_name (self_current_prompt (build_final_prompt a)) = file_name (self_current_prompt (build_final_prompt b))"
    by (simp only: file_name_build s)
  have k: "caption (self_current_prompt (build_final_prompt a)) = caption (self_current_prompt (build_final_prompt b))"
    if "subject (self_components a) \<noteq> [] \<and> action (self_components a) \<noteq> []"
    using that c by (simp add: caption_build)
  have d: "self_current_prompt (build_final_prompt a) = self_current_prompt (build_final_prompt b)"
    if "self_current_prompt a = initial_prompt \<and> self_current_prompt b = initial_prompt"
  proof (rule PromptDocument.equality)
    show "prompt (self_current_prompt (build_final_prompt a)) = prompt (self_current_prompt (build_final_prompt b))"
      by (rule p)
    show "file_name (self_current_prompt (build_final_prompt a)) = file_name (self_current_prompt (build_final_prompt b))"
      by (rule f)
    show "caption (self_current_prompt (build_final_prompt a)) = caption (self_current_prompt (build_final_prompt b))"
      using that c by (simp add: caption_build)
    show "input_image_urls (self_current_prompt (build_final_prompt a)) =
          input_image_urls (self_current_prompt (build_final_prompt b))"
      using that by (simp add: urls_build)
    show "input_ids (self_current_prompt (build_final_prompt a)) =
          input_ids (self_current_prompt (build_final_prompt b))"
      using that by (simp add: urls_build)
    show "PromptDocument.more (self_current_prompt (build_final_prompt a)) =
          PromptDocument.more (self_current_prompt (build_final_prompt b))"
      by simp
  qed
  show "prompt (self_current_prompt (build_final_prompt a)) = prompt (self_current_prompt (build_final_prompt b)) \<and>
     file_name (self_current_prompt (build_final_prompt a)) = file_name (self_current_prompt (build_final_prompt b)) \<and>
     (subject (self_components a) \<noteq> [] \<and> action (self_components a) \<noteq> [] \<longrightarrow>
        caption (self_current_prompt (build_final_prompt a)) = caption (self_current_prompt (build_final_prompt b))) \<and>
     (self_current_prompt a = initial_prompt \<and> self_current_prompt b = initial_prompt \<longrightarrow>
        self_current_prompt (build_final_prompt a) = self_current_prompt (build_final_prompt b)) \<and>
     build_final_prompt (build_final_prompt a) = build_final_prompt a"
    apply (intro conjI impI)
        apply (rule p)
       apply (rule f)
      apply (erule k)
     apply (erule d)
    apply (rule build_idem)
    done
qed

theorem build_document_dependence_witness:
  "prompt (self_current_prompt (build_final_prompt
      (init\<lparr>self_components := default_components\<lparr>subject := ''A cat'', action := ''runs''\<rparr>,
            self_current_prompt := initial_prompt\<lparr>caption := ''old''\<rparr>\<rparr>))) =
     ''Subject: A cat. Action: runs. Composition: medium shot, eye-level. Style: cinematic, photorealistic'' \<and>
   file_name (self_current_prompt (build_final_prompt
      (init\<lparr>self_components := default_components\<lparr>subject := ''A cat'', action := ''runs''\<rparr>,
            self_current_prompt := initial_prompt\<lparr>caption := ''old''\<rparr>\<rparr>))) = ''medium-day.mp4'' \<and>
   caption (self_current_prompt (build_final_prompt
      (init\<lparr>self_components := default_components\<lparr>subject := ''A cat'', action := ''runs''\<rparr>,
            self_current_prompt := initial_prompt\<lparr>caption := ''old''\<rparr>\<rparr>))) = ''A cat runs''"
proof -
  let ?a = "init\<lparr>self_components := default_components\<lparr>subject := ''A cat'', action := ''runs''\<rparr>\<rparr>"
  let ?b = "init\<lparr>self_components := default_components\<lparr>subject := ''A cat'', action := ''runs''\<rparr>,
            self_current_prompt := initial_prompt\<lparr>caption := ''old''\<rparr>\<rparr>"
  have p: "prompt (self_current_prompt (build_final_prompt ?a)) =
     ''Subject: A cat. Action: runs. Composition: medium shot, eye-level. Style: cinematic, photorealistic''"
    by (simp add: prompt_build prompt_segments_def init_def default_components_def default_scene_def)
  have f: "file_name (self_current_prompt (build_final_prompt ?a)) = ''medium-day.mp4''"
    by (simp add: file_name_build init_def default_scene_def)
  have k: "caption (self_current_prompt (build_final_prompt ?a)) = ''A cat runs''"
    by (simp add: caption_build init_def default_components_def split_def is_space_def)
  have h: "self_components ?a = self_components ?b \<and> self_scene ?a = self_scene ?b"
    by simp
  have ne: "subject (self_components ?a) \<noteq> [] \<and> action (self_components ?a) \<noteq> []"
    by simp
  note t = build_document_dependence [where a = ?a and b = ?b, THEN mp, OF h]
  from t [THEN conjunct1]
  have 1: "prompt (self_current_prompt (build_final_prompt ?b)) =
     ''Subject: A cat. Action: runs. Composition: medium shot, eye-level. Style: cinematic, photorealistic''"
    unfolding p by (rule sym)
  from t [THEN conjunct2, THEN conjunct1]
  have 2: "file_name (self_current_prompt (build_final_prompt ?b)) = ''medium-day.mp4''"
    unfolding f by (rule sym)
  from t [THEN conjunct2, THEN conjunct2, THEN conjunct1, THEN mp, OF ne]
  have 3: "caption (self_current_prompt (build_final_prompt ?b)) = ''A cat runs''"
    unfolding k by (rule sym)
  from 1 2 3 show ?thesis by (intro conjI)
qed

text \<open>
  The claim as first stated let no earlier document state take part. A builder whose
  document holds the caption of an earlier call, and a fresh builder, both with an empty
  subject and the action \<^verbatim>\<open>runs\<close>, have equal components and equal scenes, and end with
  different captions: the earlier caption stays.
\<close>

theorem build_document_dependence_counterexample:
  "self_components (init\<lparr>self_components := default_components\<lparr>action := ''runs''\<rparr>\<rparr>) =
   self_components ((build_final_prompt
       (init\<lparr>self_components := default_components\<lparr>subject := ''A cat'', action := ''runs''\<rparr>\<rparr>))
       \<lparr>self_components := default_components\<lparr>action := ''runs''\<rparr>\<rparr>) \<and>
   self_scene (init\<lparr>self_components := default_components\<lparr>action := ''runs''\<rparr>\<rparr>) =
   self_scene ((build_final_prompt
       (init\<lparr>self_components := default_components\<lparr>subject := ''A cat'', action := ''runs''\<rparr>\<rparr>))
       \<lparr>self_components := default_components\<lparr>action := ''runs''\<rparr>\<rparr>) \<and>
   caption (self_current_prompt (build_final_prompt
     (init\<lparr>self_components := default_components\<lparr>action := ''runs''\<rparr>\<rparr>))) = [] \<and>
   caption (self_current_prompt (build_final_prompt
     ((build_final_prompt
       (init\<lparr>self_components := default_components\<lparr>subject := ''A cat'', action := ''runs''\<rparr>\<rparr>))
       \<lparr>self_components := default_components\<lparr>action := ''runs''\<rparr>\<rparr>))) = ''A cat runs''"
  by (simp add: caption_build frame_build init_def default_components_def initial_prompt_def
      split_def is_space_def)

section \<open>Caption\<close>



section \<open>File name\<close>

text \<open>
  Claim C7. For every scene configuration (and whatever the components and the document
  held before), \<^verbatim>\<open>build_final_prompt\<close> sets \<^verbatim>\<open>file_name\<close> to the shot type with every
  space and every hyphen removed, then \<^verbatim>\<open>-\<close>, then the time of day, then \<^verbatim>\<open>.mp4\<close>.
\<close>

theorem file_name_strips_spaces_and_hyphens:
  "file_name (self_current_prompt (build_final_prompt self)) =
     filter (\<lambda>x. x \<noteq> CHR '' '' \<and> x \<noteq> CHR ''-'') (shot_type (self_scene self)) @ ''-'' @
     time_of_day (self_scene self) @ ''.mp4''"
  by (simp only: file_name_build shot_type_normalised)

theorem file_name_strips_spaces_and_hyphens_witness:
  "file_name (self_current_prompt (build_final_prompt
     (init\<lparr>self_scene := default_scene\<lparr>shot_type := ''extreme close-up'', time_of_day := ''night''\<rparr>\<rparr>)))
     = ''extremecloseup-night.mp4''"
  using file_name_strips_spaces_and_hyphens
    [of "init\<lparr>self_scene := default_scene\<lparr>shot_type := ''extreme close-up'', time_of_day := ''night''\<rparr>\<rparr>"]
  by (simp add: init_def default_scene_def)

text \<open>
  Claim C8, as the program has it. With the shot type \<^verbatim>\<open>close-up\<close> and the time of day
  \<^verbatim>\<open>dusk\<close>, \<^verbatim>\<open>build_final_prompt\<close> sets \<^verbatim>\<open>file_name\<close> to \<^verbatim>\<open>closeup-dusk.mp4\<close>: the hyphen
  inside the shot type is removed, the separating hyphen is kept.
\<close>

theorem close_up_dusk_file_name:
  "shot_type (self_scene self) = ''close-up'' \<Longrightarrow> time_of_day (self_scene self) = ''dusk'' \<Longrightarrow>
   file_name (self_current_prompt (build_final_prompt self)) = ''closeup-dusk.mp4''"
  by (simp add: file_name_build)

theorem close_up_dusk_file_name_witness:
  "file_name (self_current_prompt (build_final_prompt
     (init\<lparr>self_scene := default_scene\<lparr>shot_type := ''close-up'', time_of_day := ''dusk''\<rparr>\<rparr>)))
   = ''closeup-dusk.mp4''"
  using close_up_dusk_file_name
    [of "init\<lparr>self_scene := default_scene\<lparr>shot_type := ''close-up'', time_of_day := ''dusk''\<rparr>\<rparr>"]
  by simp

text \<open>The file name is not the \<^verbatim>\<open>close-up-dusk.mp4\<close> of the claim as first stated.\<close>

theorem close_up_dusk_counterexample:
  "file_name (self_current_prompt (build_final_prompt
     (init\<lparr>self_scene := default_scene\<lparr>shot_type := ''close-up'', time_of_day := ''dusk''\<rparr>\<rparr>)))
   \<noteq> ''close-up-dusk.mp4''"
  by (simp add: file_name_build)

section \<open>Lens bands\<close>

lemma lens_name_iff:
  "fst (display_lens_guide fov) = ''Super Telephoto (200mm+)'' \<longleftrightarrow> fov < 25"
  "fst (display_lens_guide fov) = ''Telephoto (85-135mm)'' \<longleftrightarrow> 25 \<le> fov \<and> fov < 35"
  "fst (display_lens_guide fov) = ''Standard (35-50mm)'' \<longleftrightarrow> 35 \<le> fov \<and> fov < 55"
  "fst (display_lens_guide fov) = ''Wide Angle (24-35mm)'' \<longleftrightarrow> 55 \<le> fov \<and> fov < 75"
  "fst (display_lens_guide fov) = ''Ultra Wide (14-24mm)'' \<longleftrightarrow> 75 \<le> fov"
  by (simp_all add: display_lens_guide_def)

lemma lens_name_cases:
  "fst (display_lens_guide fov) \<in> set [''Super Telephoto (200mm+)'', ''Telephoto (85-135mm)'',
      ''Standard (35-50mm)'', ''Wide Angle (24-35mm)'', ''Ultra Wide (14-24mm)'']"
  by (simp add: display_lens_guide_def)

lemma lens_names_distinct:
  "distinct [''Super Telephoto (200mm+)'', ''Telephoto (85-135mm)'',
      ''Standard (35-50mm)'', ''Wide Angle (24-35mm)'', ''Ultra Wide (14-24mm)'']"
  by simp

lemma analyze_scene_setup_lens_eq: "analyze_scene_setup_lens fov = display_lens_guide fov"
  by (simp add: analyze_scene_setup_lens_def display_lens_guide_def)

text \<open>
  Claim C4. For every field of view from 20 to 120, the lens name is Super Telephoto
  exactly below 25, Telephoto exactly from 25 to below 35, Standard exactly from 35 to
  below 55, Wide Angle exactly from 55 to below 75, and Ultra Wide exactly from 75 on.
  The name is one of these five, the five are pairwise different, so the bands neither
  overlap nor leave a gap; the lens analysis of the demo script computes the same.
\<close>

theorem lens_bands_partition:
  "20 \<le> fov \<and> fov \<le> 120 \<longrightarrow>
     (fst (display_lens_guide fov) = ''Super Telephoto (200mm+)'' \<longleftrightarrow> fov < 25) \<and>
     (fst (display_lens_guide fov) = ''Telephoto (85-135mm)'' \<longleftrightarrow> 25 \<le> fov \<and> fov < 35) \<and>
     (fst (display_lens_guide fov) = ''Standard (35-50mm)'' \<longleftrightarrow> 35 \<le> fov \<and> fov < 55) \<and>
     (fst (display_lens_guide fov) = ''Wide Angle (24-35mm)'' \<longleftrightarrow> 55 \<le> fov \<and> fov < 75) \<and>
     (fst (display_lens_guide fov) = ''Ultra Wide (14-24mm)'' \<longleftrightarrow> 75 \<le> fov) \<and>
     fst (display_lens_guide fov) \<in> set [''Super Telephoto (200mm+)'', ''Telephoto (85-135mm)'',
        ''Standard (35-50mm)'', ''Wide Angle (24-35mm)'', ''Ultra Wide (14-24mm)''] \<and>
     distinct [''Super Telephoto (200mm+)'', ''Telephoto (85-135mm)'',
        ''Standard (35-50mm)'', ''Wide Angle (24-35mm)'', ''Ultra Wide (14-24mm)''] \<and>
     analyze_scene_setup_lens fov = display_lens_guide fov"
  by (intro impI conjI lens_name_iff lens_name_cases lens_names_distinct analyze_scene_setup_lens_eq)

theorem lens_bands_partition_witness:
  "fst (display_lens_guide 20) = ''Super Telephoto (200mm+)'' \<and>
   fst (display_lens_guide 25) = ''Telephoto (85-135mm)'' \<and>
   fst (display_lens_guide 35) = ''Standard (35-50mm)'' \<and>
   fst (display_lens_guide 55) = ''Wide Angle (24-35mm)'' \<and>
   fst (display_lens_guide 75) = ''Ultra Wide (14-24mm)'' \<and>
   fst (display_lens_guide 120) = ''Ultra Wide (14-24mm)''"
  using lens_bands_partition [of 20] lens_bands_partition [of 25] lens_bands_partition [of 35]
    lens_bands_partition [of 55] lens_bands_partition [of 75] lens_bands_partition [of 120]
  by simp

section \<open>Suggestions\<close>

lemma ambiance_fallback:
  "(lighting_type sc, time_of_day sc) \<notin>
      {(''natural'', ''day''), (''natural'', ''dawn''), (''natural'', ''dusk''), (''natural'', ''night''),
       (''dramatic'', ''day''), (''dramatic'', ''night''), (''soft'', ''day''), (''backlit'', ''day'')} \<Longrightarrow>
   ambiance_suggestion sc = lighting_type sc @ '' '' @ time_of_day sc @ '' lighting''"
  by (simp add: ambiance_suggestion_def dict_get_def ambiance_map_def)

lemma ambiance_listed:
  "lighting_type sc = ''natural'' \<and> time_of_day sc = ''day'' \<longrightarrow>
     ambiance_suggestion sc = ''Bright natural sunlight with soft shadows''"
  "lighting_type sc = ''natural'' \<and> time_of_day sc = ''dawn'' \<longrightarrow>
     ambiance_suggestion sc = ''Golden hour lighting with warm orange tones''"
  "lighting_type sc = ''natural'' \<and> time_of_day sc = ''dusk'' \<longrightarrow>
     ambiance_suggestion sc = ''Blue hour with deep purple and orange sky''"
  "lighting_type sc = ''natural'' \<and> time_of_day sc = ''night'' \<longrightarrow>
     ambiance_suggestion sc = ''Moonlight with cool blue tones and deep shadows''"
  "lighting_type sc = ''dramatic'' \<and> time_of_day sc = ''day'' \<longrightarrow>
     ambiance_suggestion sc = ''High contrast lighting with sharp shadows''"
  "lighting_type sc = ''dramatic'' \<and> time_of_day sc = ''night'' \<longrightarrow>
     ambiance_suggestion sc = ''Chiaroscuro lighting with stark black and white contrast''"
  "lighting_type sc = ''soft'' \<and> time_of_day sc = ''day'' \<longrightarrow>
     ambiance_suggestion sc = ''Diffused overcast light with gentle shadows''"
  "lighting_type sc = ''backlit'' \<and> time_of_day sc = ''day'' \<longrightarrow>
     ambiance_suggestion sc = ''Strong backlighting creating silhouettes and rim light''"
  by (simp_all add: ambiance_suggestion_def dict_get_def ambiance_map_def)

text \<open>
  Claim C9. For each of the eight listed pairs of lighting type and time of day the
  ambiance suggestion is the string of the table, and for every other pair it is
  \<^verbatim>\<open><lighting_type> <time_of_day> lighting\<close>, with single spaces.
\<close>

theorem ambiance_table:
  "(lighting_type sc = ''natural'' \<and> time_of_day sc = ''day'' \<longrightarrow>
     ambiance_suggestion sc = ''Bright natural sunlight with soft shadows'') \<and>
   (lighting_type sc = ''natural'' \<and> time_of_day sc = ''dawn'' \<longrightarrow>
     ambiance_suggestion sc = ''Golden hour lighting with warm orange tones'') \<and>
   (lighting_type sc = ''natural'' \<and> time_of_day sc = ''dusk'' \<longrightarrow>
     ambiance_suggestion sc = ''Blue hour with deep purple and orange sky'') \<and>
   (lighting_type sc = ''natural'' \<and> time_of_day sc = ''night'' \<longrightarrow>
     ambiance_suggestion sc = ''Moonlight with cool blue tones and deep shadows'') \<and>
   (lighting_type sc = ''dramatic'' \<and> time_of_day sc = ''day'' \<longrightarrow>
     ambiance_suggestion sc = ''High contrast lighting with sharp shadows'') \<and>
   (lighting_type sc = ''dramatic'' \<and> time_of_day sc = ''night'' \<longrightarrow>
     ambiance_suggestion sc = ''Chiaroscuro lighting with stark black and white contrast'') \<and>
   (lighting_type sc = ''soft'' \<and> time_of_day sc = ''day'' \<longrightarrow>
     ambiance_suggestion sc = ''Diffused overcast light with gentle shadows'') \<and>
   (lighting_type sc = ''backlit'' \<and> time_of_day sc = ''day'' \<longrightarrow>
     ambiance_suggestion sc = ''Strong backlighting creating silhouettes and rim light'') \<and>
   ((lighting_type sc, time_of_day sc) \<notin>
      {(''natural'', ''day''), (''natural'', ''dawn''), (''natural'', ''dusk''), (''natural'', ''night''),
       (''dramatic'', ''day''), (''dramatic'', ''night''), (''soft'', ''day''), (''backlit'', ''day'')} \<longrightarrow>
     ambiance_suggestion sc = lighting_type sc @ '' '' @ time_of_day sc @ '' lighting'')"
  using ambiance_fallback [of sc]
  by (intro conjI ambiance_listed) blast

theorem ambiance_table_witness:
  "ambiance_suggestion default_scene = ''Bright natural sunlight with soft shadows'' \<and>
   ambiance_suggestion (default_scene\<lparr>lighting_type := ''dramatic'', time_of_day := ''night''\<rparr>) =
     ''Chiaroscuro lighting with stark black and white contrast'' \<and>
   ambiance_suggestion (default_scene\<lparr>lighting_type := ''soft'', time_of_day := ''night''\<rparr>) =
     ''soft night lighting''"
proof -
  have 1: "lighting_type default_scene = ''natural'' \<and> time_of_day default_scene = ''day''"
    by (simp add: default_scene_def)
  let ?d = "default_scene\<lparr>lighting_type := ''dramatic'', time_of_day := ''night''\<rparr>"
  have 2: "lighting_type ?d = ''dramatic'' \<and> time_of_day ?d = ''night''"
    by simp
  let ?s = "default_scene\<lparr>lighting_type := ''soft'', time_of_day := ''night''\<rparr>"
  have 3: "(lighting_type ?s, time_of_day ?s) \<notin>
      {(''natural'', ''day''), (''natural'', ''dawn''), (''natural'', ''dusk''), (''natural'', ''night''),
       (''dramatic'', ''day''), (''dramatic'', ''night''), (''soft'', ''day''), (''backlit'', ''day'')}"
    by simp
  have 4: "lighting_type ?s @ '' '' @ time_of_day ?s @ '' lighting'' = ''soft night lighting''"
    by simp
  note a = ambiance_table [of default_scene, THEN conjunct1, THEN mp, OF 1]
  note b = ambiance_table [of ?d, THEN conjunct2, THEN conjunct2, THEN conjunct2, THEN conjunct2,
      THEN conjunct2, THEN conjunct1, THEN mp, OF 2]
  note c = ambiance_table [of ?s, THEN conjunct2, THEN conjunct2, THEN conjunct2, THEN conjunct2,
      THEN conjunct2, THEN conjunct2, THEN conjunct2, THEN conjunct2, THEN mp, OF 3, unfolded 4]
  from a b c show ?thesis by (intro conjI)
qed

lemma suggest_camera_frame:
  assumes "suggest_camera self stdin = (self', r)"
  shows "self_scene self' = self_scene self"
    and "self_current_prompt self' = self_current_prompt self"
    and "self_components self' = self_components self \<or>
         (camera (self_components self) = [] \<and>
          self_components self' = (self_components self)\<lparr>camera := camera_suggestion (self_scene self)\<rparr>)"
    and "stdin \<noteq> [] \<Longrightarrow> \<exists>rest. r = Inr rest \<and> length stdin \<le> Suc (length rest)"
  using assms by (auto simp add: suggest_camera_def Let_def split: if_splits list.splits)

lemma suggest_ambiance_frame:
  assumes "suggest_ambiance self stdin = (self', r)"
  shows "self_scene self' = self_scene self"
    and "self_current_prompt self' = self_current_prompt self"
    and "self_components self' = self_components self \<or>
         (ambiance (self_components self) = [] \<and>
          self_components self' = (self_components self)\<lparr>ambiance := ambiance_suggestion (self_scene self)\<rparr>)"
    and "stdin \<noteq> [] \<Longrightarrow> \<exists>rest. r = Inr rest"
  using assms by (auto simp add: suggest_ambiance_def Let_def split: if_splits list.splits)

lemma suggest_from_scene_steps:
  assumes "suggest_from_scene self stdin = (self', r)"
  shows "\<exists>self1 r1. suggest_camera self stdin = (self1, r1) \<and>
           (self' = self1 \<and> (\<exists>e. r1 = Inl e \<and> r = Inl e) \<or>
            (\<exists>stdin1. r1 = Inr stdin1 \<and> suggest_ambiance self1 stdin1 = (self', r)))"
  using assms
  by (cases "suggest_camera self stdin") (auto simp add: suggest_from_scene_def split: sum.splits)

text \<open>
  Claim C5. Whatever the answers typed, and whether or not the call ends in an
  exception, \<^verbatim>\<open>suggest_from_scene\<close> leaves subject, action, scene, style, composition and
  audio as they were, leaves a non-empty camera and a non-empty ambiance as they were,
  writes into camera and ambiance nothing but the suggestion computed from the scene,
  and touches neither the scene nor the document. With two lines of input at hand the
  call returns.
\<close>

theorem suggestions_keep_values:
  "suggest_from_scene self stdin = (self', r) \<longrightarrow>
     subject (self_components self') = subject (self_components self) \<and>
     action (self_components self') = action (self_components self) \<and>
     scene (self_components self') = scene (self_components self) \<and>
     style (self_components self') = style (self_components self) \<and>
     composition (self_components self') = composition (self_components self) \<and>
     audio (self_components self') = audio (self_components self) \<and>
     (camera (self_components self) \<noteq> [] \<longrightarrow>
        camera (self_components self') = camera (self_components self)) \<and>
     (ambiance (self_components self) \<noteq> [] \<longrightarrow>
        ambiance (self_components self') = ambiance (self_components self)) \<and>
     (camera (self_components self') = camera (self_components self) \<or>
        camera (self_components self') = camera_suggestion (self_scene self)) \<and>
     (ambiance (self_components self') = ambiance (self_components self) \<or>
        ambiance (self_components self') = ambiance_suggestion (self_scene self)) \<and>
     self_scene self' = self_scene self \<and>
     self_current_prompt self' = self_current_prompt self \<and>
     (2 \<le> length stdin \<longrightarrow> (\<exists>rest. r = Inr rest))"
proof
  assume a: "suggest_from_scene self stdin = (self', r)"
  from suggest_from_scene_steps [OF a]
  obtain self1 r1 where c: "suggest_camera self stdin = (self1, r1)"
    and d: "self' = self1 \<and> (\<exists>e. r1 = Inl e \<and> r = Inl e) \<or>
            (\<exists>stdin1. r1 = Inr stdin1 \<and> suggest_ambiance self1 stdin1 = (self', r))"
    by blast
  note cf = suggest_camera_frame [OF c]
  have comp: "self_components self' = self_components self1 \<or>
         (ambiance (self_components self1) = [] \<and>
          self_components self' = (self_components self1)\<lparr>ambiance := ambiance_suggestion (self_scene self1)\<rparr>)"
    and sc: "self_scene self' = self_scene self1"
    and cp: "self_current_prompt self' = self_current_prompt self1"
    using d suggest_ambiance_frame(1,2,3) by blast+
  have tot: "\<exists>rest. r = Inr rest" if "2 \<le> length stdin"
  proof -
    from that have "stdin \<noteq> []" by auto
    from cf(4) [OF this] obtain rest where r1: "r1 = Inr rest" and l: "length stdin \<le> Suc (length rest)"
      by blast
    from l that have "rest \<noteq> []" by auto
    moreover from d r1 have "suggest_ambiance self1 rest = (self', r)" by auto
    ultimately show ?thesis using suggest_ambiance_frame(4) by blast
  qed
  show "subject (self_components self') = subject (self_components self) \<and>
     action (self_components self') = action (self_components self) \<and>
     scene (self_components self') = scene (self_components self) \<and>
     style (self_components self') = style (self_components self) \<and>
     composition (self_components self') = composition (self_components self) \<and>
     audio (self_components self') = audio (self_components self) \<and>
     (camera (self_components self) \<noteq> [] \<longrightarrow>
        camera (self_components self') = camera (self_components self)) \<and>
     (ambiance (self_components self) \<noteq> [] \<longrightarrow>
        ambiance (self_components self') = ambiance (self_components self)) \<and>
     (camera (self_components self') = camera (self_components self) \<or>
        camera (self_components self') = camera_suggestion (self_scene self)) \<and>
     (ambiance (self_components self') = ambiance (self_components self) \<or>
        ambiance (self_components self') = ambiance_suggestion (self_scene self)) \<and>
     self_scene self' = self_scene self \<and>
     self_current_prompt self' = self_current_prompt self \<and>
     (2 \<le> length stdin \<longrightarrow> (\<exists>rest. r = Inr rest))"
    using cf(1,2,3) comp sc cp tot by auto
qed

theorem suggestions_keep_values_witness:
  "suggest_from_scene (init\<lparr>self_components := default_components\<lparr>camera := ''X''\<rparr>\<rparr>) [''Y'', ''n''] =
     (init\<lparr>self_components := default_components
         \<lparr>camera := ''X'', ambiance := ''Bright natural sunlight with soft shadows''\<rparr>\<rparr>, Inr [''n'']) \<and>
   camera (self_components (init\<lparr>self_components := default_components
         \<lparr>camera := ''X'', ambiance := ''Bright natural sunlight with soft shadows''\<rparr>\<rparr>)) = ''X''"
proof -
  let ?a = "init\<lparr>self_components := default_components\<lparr>camera := ''X''\<rparr>\<rparr>"
  let ?b = "init\<lparr>self_components := default_components
         \<lparr>camera := ''X'', ambiance := ''Bright natural sunlight with soft shadows''\<rparr>\<rparr>"
  have run: "suggest_from_scene ?a [''Y'', ''n''] = (?b, Inr [''n''])"
    by (simp add: suggest_from_scene_def suggest_camera_def suggest_ambiance_def lower_yes
        ambiance_suggestion_def dict_get_def ambiance_map_def init_def default_components_def
        default_scene_def)
  have ne: "camera (self_components ?a) \<noteq> []"
    by simp
  have x: "camera (self_components ?a) = ''X''"
    by simp
  from suggestions_keep_values [where self = ?a and stdin = "[''Y'', ''n'']" and self' = ?b
      and r = "Inr [''n'']", THEN mp, OF run]
  have "camera (self_components ?a) \<noteq> [] \<longrightarrow> camera (self_components ?b) = camera (self_components ?a)"
    by (elim conjE)
  from this [THEN mp, OF ne] have "camera (self_components ?b) = ''X''"
    unfolding x .
  with run show ?thesis by (intro conjI)
qed

section \<open>Merging a reply\<close>

lemma merge_reply_object:
  "extract_json response = Some json_str \<Longrightarrow> loads json_str = Some (JDict new_prompt) \<Longrightarrow>
   merge_reply loads response current_prompt = Document (dict_update current_prompt new_prompt)"
  by (simp add: merge_reply_def)

lemma merge_reply_malformed:
  "extract_json response = Some json_str \<Longrightarrow> loads json_str = None \<Longrightarrow>
   merge_reply loads response current_prompt = Document current_prompt"
  by (simp add: merge_reply_def)

lemma merge_reply_no_fragment:
  "extract_json response = None \<Longrightarrow> merge_reply loads response current_prompt = Document current_prompt"
  by (simp add: merge_reply_def)

lemma extract_example:
  \<open>extract_json ''Sure:\<newline>```json\<newline>{"mood": "dark", "caption": "Rain"}\<newline>```\<newline>Done.''
     = Some ''{"mood": "dark", "caption": "Rain"}''\<close>
  by code_simp

lemma extract_example_bad:
  \<open>extract_json ''```json {"caption": ```'' = Some ''{"caption":''\<close>
  by code_simp

text \<open>
  Claim C6, as the program has it. When the reply carries a fragment that \<^verbatim>\<open>json.loads\<close>
  turns into an object, the document after the merge is the old one updated with the
  items of the object: every key of the object holds the object's value (its keys being
  distinct), whether the document had the key or not, and every other key holds what it
  held. When \<^verbatim>\<open>json.loads\<close> rejects the fragment, the document is unchanged.
\<close>

theorem merge_reply_writes_every_key:
  "(extract_json response = Some json_str \<and> loads json_str = Some (JDict new_prompt) \<longrightarrow>
      merge_reply loads response current_prompt = Document (dict_update current_prompt new_prompt) \<and>
      (distinct (map fst new_prompt) \<longrightarrow>
         (\<forall>k v. (k, v) \<in> set new_prompt \<longrightarrow> dict_update current_prompt new_prompt k = Some v)) \<and>
      (\<forall>k. k \<notin> fst ` set new_prompt \<longrightarrow> dict_update current_prompt new_prompt k = current_prompt k)) \<and>
   (extract_json response = Some json_str \<and> loads json_str = None \<longrightarrow>
      merge_reply loads response current_prompt = Document current_prompt)"
  using merge_reply_object [of response json_str loads new_prompt current_prompt]
    merge_reply_malformed [of response json_str loads current_prompt]
    dict_update_item [of new_prompt _ _ current_prompt]
    dict_update_other [of _ new_prompt current_prompt]
  by blast

theorem merge_reply_writes_every_key_witness:
  \<open>merge_reply
      [''{"mood": "dark", "caption": "Rain"}'' \<mapsto>
         JDict [(''mood'', JStr ''dark''), (''caption'', JStr ''Rain'')]]
      ''Sure:\<newline>```json\<newline>{"mood": "dark", "caption": "Rain"}\<newline>```\<newline>Done.''
      initial_session_prompt =
     Document (dict_update initial_session_prompt
       [(''mood'', JStr ''dark''), (''caption'', JStr ''Rain'')]) \<and>
   dict_update initial_session_prompt
       [(''mood'', JStr ''dark''), (''caption'', JStr ''Rain'')] ''caption'' = Some (JStr ''Rain'') \<and>
   dict_update initial_session_prompt
       [(''mood'', JStr ''dark''), (''caption'', JStr ''Rain'')] ''file_name'' = Some (JStr ''video.mp4'') \<and>
   merge_reply Map.empty ''```json {"caption": ```'' initial_session_prompt =
     Document initial_session_prompt\<close>
proof -
  let ?R = \<open>''Sure:\<newline>```json\<newline>{"mood": "dark", "caption": "Rain"}\<newline>```\<newline>Done.''\<close>
  let ?F = \<open>''{"mood": "dark", "caption": "Rain"}''\<close>
  let ?N = "[(''mood'', JStr ''dark''), (''caption'', JStr ''Rain'')]"
  let ?L = "[?F \<mapsto> JDict ?N]"
  have h: "extract_json ?R = Some ?F \<and> ?L ?F = Some (JDict ?N)"
    by (simp add: extract_example)
  note t = merge_reply_writes_every_key
    [where response = ?R and json_str = ?F and loads = ?L and new_prompt = ?N
       and current_prompt = initial_session_prompt, THEN conjunct1, THEN mp, OF h]
  have d: "distinct (map fst ?N)"
    by simp
  have 1: "merge_reply ?L ?R initial_session_prompt = Document (dict_update initial_session_prompt ?N)"
    by (rule t [THEN conjunct1])
  have "(''caption'', JStr ''Rain'') \<in> set ?N \<longrightarrow>
      dict_update initial_session_prompt ?N ''caption'' = Some (JStr ''Rain'')"
    using t [THEN conjunct2, THEN conjunct1, THEN mp, OF d] by blast
  then have 2: "dict_update initial_session_prompt ?N ''caption'' = Some (JStr ''Rain'')"
    by simp
  have "''file_name'' \<notin> fst ` set ?N \<longrightarrow>
      dict_update initial_session_prompt ?N ''file_name'' = initial_session_prompt ''file_name''"
    using t [THEN conjunct2, THEN conjunct2] by blast
  then have 3: "dict_update initial_session_prompt ?N ''file_name'' = Some (JStr ''video.mp4'')"
    by (simp add: initial_session_prompt_def)
  have g: \<open>extract_json ''```json {"caption": ```'' = Some ''{"caption":'' \<and>
      (Map.empty :: string \<Rightarrow> json option) ''{"caption":'' = None\<close>
    by (simp add: extract_example_bad)
  have 4: \<open>merge_reply Map.empty ''```json {"caption": ```'' initial_session_prompt =
     Document initial_session_prompt\<close>
    by (rule merge_reply_writes_every_key [THEN conjunct2, THEN mp, OF g])
  from 1 2 3 4 show ?thesis by (intro conjI)
qed

text \<open>
  The claim as first stated had unknown keys ignored. The starting document has no key
  \<^verbatim>\<open>mood\<close>; after a reply whose object has that key, the document has it.
\<close>

theorem merge_reply_unknown_key_counterexample:
  \<open>initial_session_prompt ''mood'' = None \<and>
   extract_json ''Sure:\<newline>```json\<newline>{"mood": "dark", "caption": "Rain"}\<newline>```\<newline>Done.''
     = Some ''{"mood": "dark", "caption": "Rain"}'' \<and>
   (case merge_reply
           [''{"mood": "dark", "caption": "Rain"}'' \<mapsto>
              JDict [(''mood'', JStr ''dark''), (''caption'', JStr ''Rain'')]]
           ''Sure:\<newline>```json\<newline>{"mood": "dark", "caption": "Rain"}\<newline>```\<newline>Done.''
           initial_session_prompt of
      Document d \<Rightarrow> d ''mood''
    | UpdateWithNonDict v \<Rightarrow> None) = Some (JStr ''dark'')\<close>
  by (simp add: merge_reply_def extract_example dict_update_def initial_session_prompt_def)

end
